theory Spec2Isabelle
  imports Complex_Main "HOL-Library.Stream"
begin

section \<open>The ParkVision controller sketch (parkingtestlatest.ino)\<close>

text \<open>
  The sketch is a single-threaded control loop on a microcontroller. Everything it does
  is input and output, so the embedding threads an explicit \<open>world\<close> through every
  call: the answers the hardware and the network collaborators are going to give (one
  stream per kind of read, consumed call by call), the levels last written to the
  digital output pins, and the trace of what the sketch has emitted so far (serial and
  display output, waits, telemetry publishes, HTTP calls, and the samples taken from
  the slot pins).
\<close>

subsection \<open>Values\<close>

datatype level = LOW | HIGH

text \<open>
  A C \<open>float\<close> is not-a-number, an infinity, or a finite value, which is a real number.
  The sketch only tests \<open>isnan\<close> and compares against the constants 25.0 and 60.0,
  both exact in binary floating point, so the comparison of a finite value is the
  comparison of the reals.
\<close>

datatype float = NaN | MInf | Num real | PInf

fun isnan :: "float \<Rightarrow> bool" where
  "isnan NaN = True"
| "isnan _ = False"

text \<open>\<open>x >= c\<close> for a float \<open>x\<close> and a finite constant \<open>c\<close>; false on not-a-number.\<close>

fun float_ge :: "float \<Rightarrow> real \<Rightarrow> bool" where
  "float_ge NaN c = False"
| "float_ge MInf c = False"
| "float_ge (Num x) c = (c \<le> x)"
| "float_ge PInf c = True"

text \<open>The argument of an overloaded \<open>print\<close> call: a string, an integer or a float.\<close>

datatype printable = PStr string | PInt int | PFloat float

datatype event =
    SerialPrint printable
  | SerialPrintln printable
  | Delay nat
  | DigitalRead nat level
  | LcdClear
  | LcdSetCursor int int
  | LcdPrint printable
  | MqttPublish string string bool
  | HttpBegin string
  | HttpGet
  | HttpEnd

subsection \<open>The world\<close>

text \<open>
  The telemetry client (PubSubClient) is a library outside the sketch. Its contract, as
  the sketch uses it: the client holds a session flag \<open>mqtt_up\<close>; \<open>connect\<close> makes one
  attempt, whose result code is the next element of \<open>attempts\<close> (0 is success, the
  library's \<open>MQTT_CONNECTED\<close>) and becomes the value of \<open>state()\<close>; \<open>connected()\<close> is
  true when a session is up and the carrier is still alive at this poll (the next
  element of \<open>carrier\<close>), and a session found dead is closed. So a session comes up
  only through a successful \<open>connect\<close>, and may drop at any poll.

  \<open>String_float\<close> is the Arduino core's \<open>String(float)\<close> conversion, left uninterpreted.
\<close>

record world =
  mqtt_up :: bool
  carrier :: "bool stream"
  attempts :: "int stream"
  mqtt_state :: int
  analog_in :: "nat \<Rightarrow> int stream"
  digital_in :: "nat \<Rightarrow> level stream"
  dht_humidity :: "float stream"
  dht_temperature :: "float stream"
  http_codes :: "int stream"
  http_bodies :: "string stream"
  String_float :: "float \<Rightarrow> string"
  pin_out :: "nat \<rightharpoonup> level"
  trace :: "event list"

definition emit :: "event \<Rightarrow> world \<Rightarrow> world" where
  "emit e w = w\<lparr>trace := trace w @ [e]\<rparr>"

text \<open>What a run from \<open>w\<close> to \<open>w'\<close> has added to the trace.\<close>

definition emitted :: "world \<Rightarrow> world \<Rightarrow> event list" where
  "emitted w w' = drop (length (trace w)) (trace w')"

subsection \<open>Hardware and library calls\<close>

definition serial_print :: "printable \<Rightarrow> world \<Rightarrow> world" where
  "serial_print p w = emit (SerialPrint p) w"

definition serial_println :: "printable \<Rightarrow> world \<Rightarrow> world" where
  "serial_println p w = emit (SerialPrintln p) w"

definition delay :: "nat \<Rightarrow> world \<Rightarrow> world" where
  "delay ms w = emit (Delay ms) w"

definition digitalWrite :: "nat \<Rightarrow> level \<Rightarrow> world \<Rightarrow> world" where
  "digitalWrite pin v w = w\<lparr>pin_out := (pin_out w)(pin \<mapsto> v)\<rparr>"

definition digitalRead :: "nat \<Rightarrow> world \<Rightarrow> level \<times> world" where
  "digitalRead pin w =
     (let v = shd (digital_in w pin)
      in (v, emit (DigitalRead pin v)
               (w\<lparr>digital_in := (digital_in w)(pin := stl (digital_in w pin))\<rparr>)))"

definition analogRead :: "nat \<Rightarrow> world \<Rightarrow> int \<times> world" where
  "analogRead pin w =
     (shd (analog_in w pin), w\<lparr>analog_in := (analog_in w)(pin := stl (analog_in w pin))\<rparr>)"

definition lcd_clear :: "world \<Rightarrow> world" where
  "lcd_clear w = emit LcdClear w"

definition lcd_setCursor :: "int \<Rightarrow> int \<Rightarrow> world \<Rightarrow> world" where
  "lcd_setCursor col row w = emit (LcdSetCursor col row) w"

definition lcd_print :: "printable \<Rightarrow> world \<Rightarrow> world" where
  "lcd_print p w = emit (LcdPrint p) w"

definition dht_readHumidity :: "world \<Rightarrow> float \<times> world" where
  "dht_readHumidity w = (shd (dht_humidity w), w\<lparr>dht_humidity := stl (dht_humidity w)\<rparr>)"

definition dht_readTemperature :: "world \<Rightarrow> float \<times> world" where
  "dht_readTemperature w =
     (shd (dht_temperature w), w\<lparr>dht_temperature := stl (dht_temperature w)\<rparr>)"

definition mqtt_connected :: "world \<Rightarrow> bool \<times> world" where
  "mqtt_connected w =
     (if mqtt_up w
      then (shd (carrier w), w\<lparr>mqtt_up := shd (carrier w), carrier := stl (carrier w)\<rparr>)
      else (False, w))"

definition mqtt_connect :: "string \<Rightarrow> world \<Rightarrow> bool \<times> world" where
  "mqtt_connect client_id w =
     (let rc = shd (attempts w)
      in (rc = 0, w\<lparr>mqtt_up := (rc = 0), attempts := stl (attempts w), mqtt_state := rc\<rparr>))"

text \<open>\<open>mqttClient.loop()\<close> services the session: one more poll; the sketch's message
  callback does nothing.\<close>

definition mqtt_loop :: "world \<Rightarrow> world" where
  "mqtt_loop w = snd (mqtt_connected w)"

definition mqtt_publish :: "string \<Rightarrow> string \<Rightarrow> bool \<Rightarrow> world \<Rightarrow> world" where
  "mqtt_publish topic payload retained w = emit (MqttPublish topic payload retained) w"

definition http_begin :: "string \<Rightarrow> world \<Rightarrow> world" where
  "http_begin url w = emit (HttpBegin url) w"

definition http_GET :: "world \<Rightarrow> int \<times> world" where
  "http_GET w = (shd (http_codes w), emit HttpGet (w\<lparr>http_codes := stl (http_codes w)\<rparr>))"

definition http_getString :: "world \<Rightarrow> string \<times> world" where
  "http_getString w = (shd (http_bodies w), w\<lparr>http_bodies := stl (http_bodies w)\<rparr>)"

definition http_end :: "world \<Rightarrow> world" where
  "http_end w = emit HttpEnd w"

definition HTTP_CODE_OK :: int where
  "HTTP_CODE_OK = 200"

text \<open>\<open>String(int)\<close>: the decimal digits, with a minus sign for a negative value.\<close>

fun dec_digits :: "nat \<Rightarrow> string" where
  "dec_digits n =
     (if n < 10 then [''0123456789'' ! n]
      else dec_digits (n div 10) @ [''0123456789'' ! (n mod 10)])"

declare dec_digits.simps [simp del]

definition String_int :: "int \<Rightarrow> string" where
  "String_int i = (if i < 0 then CHR ''-'' # dec_digits (nat (- i)) else dec_digits (nat i))"

subsection \<open>Configuration constants (lines 8-38)\<close>

definition host :: string where
  "host = ''YOUR_SERVER_IP''"

definition mqtt_client_id :: string where
  "mqtt_client_id = ''DHT11_topic_manros''"

definition dht_topic :: string where
  "dht_topic = ''DHT11_topic_manros''"

definition dht_topic1 :: string where
  "dht_topic1 = ''DHT11_topic1_manros''"

definition irSensorPins :: "nat list" where
  "irSensorPins = [32, 35, 27]"

definition ledPins :: "nat list" where
  "ledPins = [18, 19, 4]"

definition mq2Pin :: nat where
  "mq2Pin = 34"

definition relayPin :: nat where
  "relayPin = 14"

definition threshold :: int where
  "threshold = 1000"

subsection \<open>reconnect (lines 46-58)\<close>

text \<open>
  The \<open>while\<close> loop has no bound, so the model is a partial function: \<open>None\<close> is the
  call that never returns.
\<close>

partial_function (option) reconnect :: "world \<Rightarrow> world option" where
  "reconnect w =
     (case mqtt_connected w of (up, w) \<Rightarrow>
        if up then Some w
        else
          let w = serial_print (PStr ''Attempting MQTT connection...'') w
          in case mqtt_connect mqtt_client_id w of (ok, w) \<Rightarrow>
               if ok then reconnect (serial_println (PStr ''connected'') w)
               else
                 reconnect
                   (delay 5000
                     (serial_println (PStr '' try again in 5 seconds'')
                       (serial_print (PInt (mqtt_state w))
                         (serial_print (PStr ''failed, rc='') w)))))"

subsection \<open>detectIRStatus (lines 142-150)\<close>

definition detectIRStatus :: "nat \<Rightarrow> world \<Rightarrow> string \<times> world" where
  "detectIRStatus sensorPin w =
     (case digitalRead sensorPin w of (v1, w) \<Rightarrow>
        if v1 = LOW then
          (case digitalRead sensorPin (delay 50 w) of (v2, w) \<Rightarrow>
             if v2 = LOW then (''Occupied'', w) else (''Empty'', w))
        else (''Empty'', w))"

subsection \<open>displayLCD (lines 153-166)\<close>

definition slotNames :: "string list" where
  "slotNames = [''A4'', ''A5'', ''A6'']"

function lcd_rows :: "int \<Rightarrow> string list \<Rightarrow> world \<Rightarrow> world" where
  "lcd_rows i sensorStatus w =
     (if 0 \<le> i then
        lcd_rows (i - 1) sensorStatus
          (lcd_print (PStr (sensorStatus ! nat i))
            (lcd_print (PStr '': '')
              (lcd_print (PStr (slotNames ! nat i))
                (lcd_print (PStr ''Slot '')
                  (lcd_setCursor 0 (2 - i) w)))))
      else w)"
  by pat_completeness auto
termination
  by (relation "measure (\<lambda>(i, s, w). nat (i + 1))") auto

declare lcd_rows.simps [simp del]

definition displayLCD :: "string list \<Rightarrow> int \<Rightarrow> world \<Rightarrow> world" where
  "displayLCD sensorStatus availableSlots w =
     lcd_print (PInt availableSlots)
       (lcd_print (PStr ''Available: '')
         (lcd_setCursor 0 3
           (lcd_rows 2 sensorStatus (lcd_clear w))))"

subsection \<open>readDHT (lines 169-215)\<close>

text \<open>Lines 186-194: publish temperature and humidity if the thresholds are met.\<close>

definition publish_readings :: "float \<Rightarrow> float \<Rightarrow> world \<Rightarrow> world" where
  "publish_readings temperature humidity w =
     (if float_ge temperature 25 \<and> float_ge humidity 60 then
        (case mqtt_connected w of (up, w) \<Rightarrow>
           if up then
             mqtt_publish dht_topic1 (String_float w humidity) True
               (mqtt_publish dht_topic (String_float w temperature) True w)
           else serial_println (PStr ''MQTT not connected'') w)
      else w)"

text \<open>Lines 196-214: the HTTP request that sends the sensor data.\<close>

definition send_status :: "float \<Rightarrow> float \<Rightarrow> string list \<Rightarrow> int \<Rightarrow> world \<Rightarrow> world" where
  "send_status temperature humidity sensorStatus gasValue w =
     (let link = ''http://'' @ host @ ''/projectfinal/kirimdata.php?temp=''
                   @ String_float w temperature
                   @ ''&hum='' @ String_float w humidity
                   @ ''&gas='' @ String_int gasValue
                   @ ''&ir1='' @ sensorStatus ! 0
                   @ ''&ir2='' @ sensorStatus ! 1
                   @ ''&ir3='' @ sensorStatus ! 2
      in case http_GET (http_begin link w) of (httpCode, w) \<Rightarrow>
           let w = (if httpCode \<noteq> HTTP_CODE_OK then
                      serial_println (PInt httpCode)
                        (serial_println (PStr ''HTTP GET request failed'') w)
                    else w)
           in case http_getString w of (response, w) \<Rightarrow>
                http_end (serial_println (PStr response) w))"

definition readDHT :: "int \<Rightarrow> string list \<Rightarrow> int \<Rightarrow> world \<Rightarrow> world" where
  "readDHT slots sensorStatus gasValue w =
     (case dht_readHumidity w of (humidity, w) \<Rightarrow>
      case dht_readTemperature w of (temperature, w) \<Rightarrow>
        if isnan humidity \<or> isnan temperature then
          delay 2000 (serial_println (PStr ''Failed to read from DHT sensor'') w)
        else
          send_status temperature humidity sensorStatus gasValue
            (publish_readings temperature humidity
              (serial_println (PStr '' *C'')
                (serial_print (PFloat temperature)
                  (serial_print (PStr ''Temperature: '')
                    (serial_print (PStr ('' %'' @ [CHR 0x09]))
                      (serial_print (PFloat humidity)
                        (serial_print (PStr ''Humidity: '') w))))))))"

subsection \<open>loop (lines 95-139)\<close>

text \<open>Lines 107-114: the relay follows the gas sample.\<close>

definition relay_control :: "int \<Rightarrow> world \<Rightarrow> world" where
  "relay_control sensorValue w =
     (if sensorValue > threshold then
        serial_println (PStr ''Gas detected! Relay ON, Fan ON.'')
          (digitalWrite relayPin HIGH w)
      else
        serial_println (PStr ''No gas detected. Relay OFF, Fan OFF.'')
          (digitalWrite relayPin LOW w))"

text \<open>Lines 119-132: the body of the slot loop, on
  \<open>(sensorStatus, availableSlots, world)\<close>, and the loop itself.\<close>

definition slot_body ::
  "nat \<Rightarrow> string list \<times> int \<times> world \<Rightarrow> string list \<times> int \<times> world" where
  "slot_body i s =
     (case s of (sensorStatus, availableSlots, w) \<Rightarrow>
      case detectIRStatus (irSensorPins ! i) w of (st, w) \<Rightarrow>
        let sensorStatus = sensorStatus[i := st];
            w = serial_print (PStr ''IR Sensor '') w;
            w = serial_print (PInt (int i + 1)) w;
            w = serial_print (PStr '': '') w;
            w = serial_println (PStr (sensorStatus ! i)) w
        in if sensorStatus ! i = ''Occupied''
           then (sensorStatus, availableSlots - 1, digitalWrite (ledPins ! i) LOW w)
           else (sensorStatus, availableSlots, digitalWrite (ledPins ! i) HIGH w))"

function slot_loop ::
  "nat \<Rightarrow> string list \<times> int \<times> world \<Rightarrow> string list \<times> int \<times> world" where
  "slot_loop i s = (if i < 3 then slot_loop (i + 1) (slot_body i s) else s)"
  by pat_completeness auto
termination
  by (relation "measure (\<lambda>(i, s). 3 - i)") auto

declare slot_loop.simps [simp del]

text \<open>Lines 100-138: one tick, after the connectivity check.\<close>

definition tick :: "world \<Rightarrow> world" where
  "tick w =
     (let w = mqtt_loop w
      in case analogRead mq2Pin w of (sensorValue, w) \<Rightarrow>
        let w = serial_print (PStr ''MQ2 Sensor Value: '') w;
            w = serial_println (PInt sensorValue) w;
            w = relay_control sensorValue w
        in case slot_loop 0 ([[], [], []], 3, w) of (sensorStatus, availableSlots, w) \<Rightarrow>
             let w = displayLCD sensorStatus availableSlots w;
                 w = readDHT (3 - availableSlots) sensorStatus sensorValue w
             in delay 1000 w)"

text \<open>Lines 96-99, then the tick. \<open>None\<close>: \<open>reconnect\<close> never returned.\<close>

definition loop :: "world \<Rightarrow> world option" where
  "loop w =
     (case mqtt_connected w of (up, w) \<Rightarrow>
        map_option tick (if \<not> up then reconnect w else Some w))"

section \<open>Observations\<close>

text \<open>
  What each part of a tick reads and emits, written as functions of the inputs. The
  lemmas of the next section prove that the code above computes exactly these.
\<close>

definition debounced :: "level stream \<Rightarrow> string" where
  "debounced s = (if shd s = LOW \<and> shd (stl s) = LOW then ''Occupied'' else ''Empty'')"

definition after_detect :: "level stream \<Rightarrow> level stream" where
  "after_detect s = (if shd s = LOW then stl (stl s) else stl s)"

definition detect_events :: "nat \<Rightarrow> level stream \<Rightarrow> event list" where
  "detect_events pin s =
     DigitalRead pin (shd s) #
       (if shd s = LOW then [Delay 50, DigitalRead pin (shd (stl s))] else [])"

definition slot_events :: "nat \<Rightarrow> level stream \<Rightarrow> event list" where
  "slot_events i s =
     detect_events (irSensorPins ! i) s @
     [SerialPrint (PStr ''IR Sensor ''), SerialPrint (PInt (int i + 1)),
      SerialPrint (PStr '': ''), SerialPrintln (PStr (debounced s))]"

definition led_level :: "string \<Rightarrow> level" where
  "led_level st = (if st = ''Occupied'' then LOW else HIGH)"

definition lcd_events :: "string list \<Rightarrow> int \<Rightarrow> event list" where
  "lcd_events st av =
     [LcdClear,
      LcdSetCursor 0 0, LcdPrint (PStr ''Slot ''), LcdPrint (PStr ''A6''), LcdPrint (PStr '': ''),
      LcdPrint (PStr (st ! 2)),
      LcdSetCursor 0 1, LcdPrint (PStr ''Slot ''), LcdPrint (PStr ''A5''), LcdPrint (PStr '': ''),
      LcdPrint (PStr (st ! 1)),
      LcdSetCursor 0 2, LcdPrint (PStr ''Slot ''), LcdPrint (PStr ''A4''), LcdPrint (PStr '': ''),
      LcdPrint (PStr (st ! 0)),
      LcdSetCursor 0 3, LcdPrint (PStr ''Available: ''), LcdPrint (PInt av)]"

definition publish_events :: "(float \<Rightarrow> string) \<Rightarrow> bool \<Rightarrow> float \<Rightarrow> float \<Rightarrow> event list" where
  "publish_events fmt up h t =
     (if float_ge t 25 \<and> float_ge h 60 then
        (if up then [MqttPublish dht_topic (fmt t) True, MqttPublish dht_topic1 (fmt h) True]
         else [SerialPrintln (PStr ''MQTT not connected'')])
      else [])"

definition upload_url ::
  "(float \<Rightarrow> string) \<Rightarrow> float \<Rightarrow> float \<Rightarrow> string list \<Rightarrow> int \<Rightarrow> string" where
  "upload_url fmt h t st gas =
     ''http://'' @ host @ ''/projectfinal/kirimdata.php?temp='' @ fmt t
       @ ''&hum='' @ fmt h @ ''&gas='' @ String_int gas
       @ ''&ir1='' @ st ! 0 @ ''&ir2='' @ st ! 1 @ ''&ir3='' @ st ! 2"

definition upload_events ::
  "(float \<Rightarrow> string) \<Rightarrow> float \<Rightarrow> float \<Rightarrow> int \<Rightarrow> string \<Rightarrow> string list \<Rightarrow> int \<Rightarrow> event list" where
  "upload_events fmt h t code body st gas =
     [HttpBegin (upload_url fmt h t st gas), HttpGet] @
     (if code \<noteq> 200 then
        [SerialPrintln (PStr ''HTTP GET request failed''), SerialPrintln (PInt code)]
      else []) @
     [SerialPrintln (PStr body), HttpEnd]"

definition report_events ::
  "(float \<Rightarrow> string) \<Rightarrow> bool \<Rightarrow> float \<Rightarrow> float \<Rightarrow> int \<Rightarrow> string \<Rightarrow> string list \<Rightarrow> int
     \<Rightarrow> event list" where
  "report_events fmt up h t code body st gas =
     (if isnan h \<or> isnan t then
        [SerialPrintln (PStr ''Failed to read from DHT sensor''), Delay 2000]
      else
        [SerialPrint (PStr ''Humidity: ''), SerialPrint (PFloat h),
         SerialPrint (PStr ('' %'' @ [CHR 0x09])), SerialPrint (PStr ''Temperature: ''),
         SerialPrint (PFloat t), SerialPrintln (PStr '' *C'')] @
        publish_events fmt up h t @ upload_events fmt h t code body st gas)"

fun is_wait :: "event \<Rightarrow> bool" where
  "is_wait (Delay d) = True"
| "is_wait _ = False"

fun is_publish :: "event \<Rightarrow> bool" where
  "is_publish (MqttPublish topic payload retained) = True"
| "is_publish _ = False"

fun is_http :: "event \<Rightarrow> bool" where
  "is_http (HttpBegin url) = True"
| "is_http HttpGet = True"
| "is_http HttpEnd = True"
| "is_http _ = False"

fun is_serial :: "event \<Rightarrow> bool" where
  "is_serial (SerialPrint p) = True"
| "is_serial (SerialPrintln p) = True"
| "is_serial _ = False"

definition same_devices :: "world \<Rightarrow> world \<Rightarrow> bool" where
  "same_devices w w' \<longleftrightarrow>
     analog_in w' = analog_in w \<and> digital_in w' = digital_in w \<and>
     dht_humidity w' = dht_humidity w \<and> dht_temperature w' = dht_temperature w \<and>
     http_codes w' = http_codes w \<and> http_bodies w' = http_bodies w \<and>
     String_float w' = String_float w \<and> pin_out w' = pin_out w"

definition failed_attempt :: "int \<Rightarrow> event list" where
  "failed_attempt rc =
     [SerialPrint (PStr ''Attempting MQTT connection...''), SerialPrint (PStr ''failed, rc=''),
      SerialPrint (PInt rc), SerialPrintln (PStr '' try again in 5 seconds''), Delay 5000]"

section \<open>Example worlds\<close>

text \<open>
  Concrete inputs for the closed examples below. \<open>example_fmt\<close> stands in for the
  library's \<open>String(float)\<close> on the two values the examples use.
\<close>

definition example_fmt :: "float \<Rightarrow> string" where
  "example_fmt x = (if x = Num 25 then ''25.00'' else if x = Num 60 then ''60.00'' else ''nan'')"

text \<open>Connected, no gas, all slots empty, 25.0 degrees at 60.0 percent, uploads answered 200.\<close>

definition quiet_world :: world where
  "quiet_world =
     \<lparr>mqtt_up = True, carrier = sconst True, attempts = sconst 0, mqtt_state = 0,
      analog_in = (\<lambda>pin. sconst 0), digital_in = (\<lambda>pin. sconst HIGH),
      dht_humidity = sconst (Num 60), dht_temperature = sconst (Num 25),
      http_codes = sconst 200, http_bodies = sconst ''OK'',
      String_float = example_fmt, pin_out = Map.empty, trace = []\<rparr>"

text \<open>The specification's concrete scenario: slots Occupied, Empty, Occupied and a gas sample of 1200.\<close>

definition scenario_world :: world where
  "scenario_world =
     quiet_world\<lparr>analog_in := (\<lambda>pin. sconst 1200),
                  digital_in := (\<lambda>pin. sconst HIGH)(32 := sconst LOW, 27 := sconst LOW)\<rparr>"

text \<open>The environment sensor fails: the temperature is not a number.\<close>

definition nan_world :: world where
  "nan_world = quiet_world\<lparr>dht_temperature := sconst NaN\<rparr>"

text \<open>The telemetry session is up when the tick starts and found dead at the third poll.\<close>

definition dropped_world :: world where
  "dropped_world = quiet_world\<lparr>carrier := True ## True ## sconst False\<rparr>"

text \<open>The broker is unreachable: the session is down and every attempt fails (code -2).\<close>

definition offline_world :: world where
  "offline_world = quiet_world\<lparr>mqtt_up := False, attempts := sconst (- 2)\<rparr>"

text \<open>The session is down; two attempts fail and the third succeeds.\<close>

definition retry_world :: world where
  "retry_world = quiet_world\<lparr>mqtt_up := False, attempts := - 2 ## - 2 ## sconst 0\<rparr>"

section \<open>What each function does to the world\<close>

lemma detect_nf:
  "detectIRStatus pin w =
     (debounced (digital_in w pin),
      w\<lparr>digital_in := (digital_in w)(pin := after_detect (digital_in w pin)),
        trace := trace w @ detect_events pin (digital_in w pin)\<rparr>)"
  by (simp add: detectIRStatus_def digitalRead_def delay_def emit_def Let_def debounced_def
      after_detect_def detect_events_def)

lemma slot_body_nf:
  assumes "i < length st"
  shows "slot_body i (st, av, w) =
     (st[i := debounced (digital_in w (irSensorPins ! i))],
      av - (if debounced (digital_in w (irSensorPins ! i)) = ''Occupied'' then 1 else 0),
      w\<lparr>digital_in := (digital_in w)(irSensorPins ! i := after_detect (digital_in w (irSensorPins ! i))),
        pin_out := (pin_out w)(ledPins ! i \<mapsto> led_level (debounced (digital_in w (irSensorPins ! i)))),
        trace := trace w @ slot_events i (digital_in w (irSensorPins ! i))\<rparr>)"
  using assms unfolding slot_body_def Let_def
  by (simp add: detect_nf serial_print_def serial_println_def emit_def digitalWrite_def
      slot_events_def led_level_def)

lemma slot_loop_unroll: "slot_loop 0 s = slot_body 2 (slot_body 1 (slot_body 0 s))"
  by (simp add: slot_loop.simps numeral_2_eq_2)

lemma slot_loop_nf:
  "slot_loop 0 ([[], [], []], 3, w) =
     ([debounced (digital_in w 32), debounced (digital_in w 35), debounced (digital_in w 27)],
      3 - (if debounced (digital_in w 32) = ''Occupied'' then 1 else 0)
        - (if debounced (digital_in w 35) = ''Occupied'' then 1 else 0)
        - (if debounced (digital_in w 27) = ''Occupied'' then 1 else 0),
      w\<lparr>digital_in := (digital_in w)(32 := after_detect (digital_in w 32),
                                      35 := after_detect (digital_in w 35),
                                      27 := after_detect (digital_in w 27)),
        pin_out := (pin_out w)(18 \<mapsto> led_level (debounced (digital_in w 32)),
                               19 \<mapsto> led_level (debounced (digital_in w 35)),
                               4 \<mapsto> led_level (debounced (digital_in w 27))),
        trace := trace w @ slot_events 0 (digital_in w 32) @ slot_events 1 (digital_in w 35)
                   @ slot_events 2 (digital_in w 27)\<rparr>)"
  by (simp add: slot_loop_unroll slot_body_nf irSensorPins_def ledPins_def split del: if_split)

lemma displayLCD_nf: "displayLCD st av w = w\<lparr>trace := trace w @ lcd_events st av\<rparr>"
  by (simp add: displayLCD_def lcd_rows.simps lcd_events_def lcd_setCursor_def lcd_print_def
      lcd_clear_def emit_def slotNames_def)

lemma publish_readings_nf:
  "publish_readings t h w =
     w\<lparr>mqtt_up := (if float_ge t 25 \<and> float_ge h 60 \<and> mqtt_up w then shd (carrier w) else mqtt_up w),
       carrier := (if float_ge t 25 \<and> float_ge h 60 \<and> mqtt_up w then stl (carrier w) else carrier w),
       trace := trace w @ publish_events (String_float w) (mqtt_up w \<and> shd (carrier w)) h t\<rparr>"
  unfolding publish_readings_def publish_events_def
  by (simp add: mqtt_connected_def mqtt_publish_def serial_println_def emit_def)

lemma send_status_nf:
  "send_status t h st gas w =
     w\<lparr>http_codes := stl (http_codes w), http_bodies := stl (http_bodies w),
       trace := trace w @
         upload_events (String_float w) h t (shd (http_codes w)) (shd (http_bodies w)) st gas\<rparr>"
  unfolding send_status_def upload_events_def upload_url_def Let_def HTTP_CODE_OK_def
  by (simp add: http_begin_def http_GET_def http_getString_def http_end_def serial_println_def emit_def)

lemma readDHT_invalid:
  "isnan (shd (dht_humidity w)) \<or> isnan (shd (dht_temperature w)) \<Longrightarrow>
   readDHT slots st gas w =
     w\<lparr>dht_humidity := stl (dht_humidity w),
       dht_temperature := stl (dht_temperature w),
       trace := trace w @ [SerialPrintln (PStr ''Failed to read from DHT sensor''), Delay 2000]\<rparr>"
  unfolding readDHT_def
  by (simp add: dht_readHumidity_def dht_readTemperature_def serial_println_def delay_def emit_def)

lemma readDHT_valid:
  "\<not> isnan (shd (dht_humidity w)) \<Longrightarrow> \<not> isnan (shd (dht_temperature w)) \<Longrightarrow>
   readDHT slots st gas w =
     w\<lparr>mqtt_up := (if float_ge (shd (dht_temperature w)) 25 \<and> float_ge (shd (dht_humidity w)) 60 \<and> mqtt_up w
                   then shd (carrier w) else mqtt_up w),
       carrier := (if float_ge (shd (dht_temperature w)) 25 \<and> float_ge (shd (dht_humidity w)) 60 \<and> mqtt_up w
                   then stl (carrier w) else carrier w),
       dht_humidity := stl (dht_humidity w),
       dht_temperature := stl (dht_temperature w),
       http_codes := stl (http_codes w),
       http_bodies := stl (http_bodies w),
       trace := trace w @
         report_events (String_float w) (mqtt_up w \<and> shd (carrier w)) (shd (dht_humidity w))
           (shd (dht_temperature w)) (shd (http_codes w)) (shd (http_bodies w)) st gas\<rparr>"
  unfolding readDHT_def report_events_def
  by (simp add: publish_readings_nf send_status_nf dht_readHumidity_def dht_readTemperature_def
         serial_print_def serial_println_def emit_def)

lemma readDHT_trace:
  "trace (readDHT slots st gas w) =
     trace w @
       report_events (String_float w) (mqtt_up w \<and> shd (carrier w)) (shd (dht_humidity w))
         (shd (dht_temperature w)) (shd (http_codes w)) (shd (http_bodies w)) st gas"
  by (cases "isnan (shd (dht_humidity w)) \<or> isnan (shd (dht_temperature w))")
     (simp_all add: readDHT_invalid readDHT_valid, simp_all add: report_events_def)

lemma readDHT_pin_out: "pin_out (readDHT slots st gas w) = pin_out w"
  by (cases "isnan (shd (dht_humidity w)) \<or> isnan (shd (dht_temperature w))")
     (simp_all add: readDHT_invalid readDHT_valid)

lemma relay_control_nf:
  "relay_control v w =
     w\<lparr>pin_out := (pin_out w)(relayPin \<mapsto> (if v > threshold then HIGH else LOW)),
       trace := trace w @
         [SerialPrintln (PStr (if v > threshold then ''Gas detected! Relay ON, Fan ON.''
                               else ''No gas detected. Relay OFF, Fan OFF.''))]\<rparr>"
  by (simp add: relay_control_def serial_println_def emit_def digitalWrite_def)

lemma mqtt_loop_nf:
  "mqtt_loop w =
     w\<lparr>mqtt_up := (mqtt_up w \<and> shd (carrier w)),
       carrier := (if mqtt_up w then stl (carrier w) else carrier w)\<rparr>"
  by (simp add: mqtt_loop_def mqtt_connected_def)

lemma tick_pin_out:
  "pin_out (tick w) =
     (pin_out w)(relayPin \<mapsto> (if shd (analog_in w mq2Pin) > threshold then HIGH else LOW),
                 18 \<mapsto> led_level (debounced (digital_in w 32)),
                 19 \<mapsto> led_level (debounced (digital_in w 35)),
                 4 \<mapsto> led_level (debounced (digital_in w 27)))"
  unfolding tick_def Let_def
  by (simp add: mqtt_loop_nf analogRead_def serial_print_def serial_println_def delay_def emit_def
        relay_control_nf slot_loop_nf displayLCD_nf readDHT_pin_out split del: if_split)

lemma tick_trace:
  "trace (tick w) =
     trace w @
     [SerialPrint (PStr ''MQ2 Sensor Value: ''), SerialPrintln (PInt (shd (analog_in w mq2Pin))),
      SerialPrintln (PStr (if shd (analog_in w mq2Pin) > threshold
                           then ''Gas detected! Relay ON, Fan ON.''
                           else ''No gas detected. Relay OFF, Fan OFF.''))] @
     slot_events 0 (digital_in w 32) @ slot_events 1 (digital_in w 35) @
     slot_events 2 (digital_in w 27) @
     lcd_events
       [debounced (digital_in w 32), debounced (digital_in w 35), debounced (digital_in w 27)]
       (3 - (if debounced (digital_in w 32) = ''Occupied'' then 1 else 0)
          - (if debounced (digital_in w 35) = ''Occupied'' then 1 else 0)
          - (if debounced (digital_in w 27) = ''Occupied'' then 1 else 0)) @
     report_events (String_float w) (mqtt_up w \<and> shd (carrier w) \<and> shd (stl (carrier w)))
       (shd (dht_humidity w)) (shd (dht_temperature w)) (shd (http_codes w)) (shd (http_bodies w))
       [debounced (digital_in w 32), debounced (digital_in w 35), debounced (digital_in w 27)]
       (shd (analog_in w mq2Pin)) @
     [Delay 1000]"
  unfolding tick_def Let_def
  apply (simp add: mqtt_loop_nf analogRead_def serial_print_def serial_println_def delay_def emit_def
        relay_control_nf slot_loop_nf displayLCD_nf readDHT_trace split del: if_split cong: if_cong)
  apply (cases "mqtt_up w"; simp)
  done

lemma reconnect_returns:
  assumes "reconnect w = Some w'"
  shows "same_devices w w' \<and> mqtt_up w' \<and>
         (\<exists>k es. attempts w' = sdrop k (attempts w) \<and> trace w' = trace w @ es \<and>
            (\<forall>e\<in>set es. is_serial e \<or> e = Delay 5000) \<and>
            filter is_wait es =
              replicate (length (filter (\<lambda>rc. rc \<noteq> 0) (stake k (attempts w)))) (Delay 5000) \<and>
            (\<not> mqtt_up w \<longrightarrow> 0 < k) \<and> (0 < k \<longrightarrow> attempts w !! (k - 1) = 0))"
  using assms
proof (induction rule: reconnect.raw_induct[rotated 1, consumes 1])
  case (1 f w w')
  show ?case
  proof (cases "mqtt_up w \<and> shd (carrier w)")
    case True
    with 1(2) have "w' = w\<lparr>mqtt_up := True, carrier := stl (carrier w)\<rparr>"
      by (simp add: mqtt_connected_def)
    then show ?thesis using True
      by (auto simp: same_devices_def intro!: exI[of _ "0::nat"])
  next
    case False
    define w1 where "w1 = snd (mqtt_connected w)"
    have w1: "mqtt_connected w = (False, w1)" "same_devices w w1" "\<not> mqtt_up w1"
      "attempts w1 = attempts w" "trace w1 = trace w"
      using False by (auto simp: w1_def mqtt_connected_def same_devices_def)
    define rc where "rc = shd (attempts w)"
    show ?thesis
    proof (cases "rc = 0")
      case True
      define w2 where "w2 = w1\<lparr>mqtt_up := True, attempts := stl (attempts w), mqtt_state := 0,
        trace := trace w @ [SerialPrint (PStr ''Attempting MQTT connection...''),
                            SerialPrintln (PStr ''connected'')]\<rparr>"
      from 1(2) w1 True have "f w2 = Some w'"
        by (simp add: w2_def rc_def mqtt_connect_def serial_print_def serial_println_def emit_def)
      from 1(1)[OF this] obtain k es where
        IH: "same_devices w2 w'" "mqtt_up w'" "attempts w' = sdrop k (attempts w2)"
          "trace w' = trace w2 @ es" "\<forall>e\<in>set es. is_serial e \<or> e = Delay 5000"
          "filter is_wait es =
             replicate (length (filter (\<lambda>rc. rc \<noteq> 0) (stake k (attempts w2)))) (Delay 5000)"
          "0 < k \<longrightarrow> attempts w2 !! (k - 1) = 0"
        by blast
      have "same_devices w w'"
        using IH(1) w1(2) by (simp add: same_devices_def w2_def)
      moreover have "attempts w' = sdrop (Suc k) (attempts w)"
        using IH(3) by (simp add: w2_def)
      moreover have "trace w' = trace w @
          ([SerialPrint (PStr ''Attempting MQTT connection...''), SerialPrintln (PStr ''connected'')] @ es)"
        using IH(4) by (simp add: w2_def)
      moreover have "filter is_wait
          ([SerialPrint (PStr ''Attempting MQTT connection...''), SerialPrintln (PStr ''connected'')] @ es) =
          replicate (length (filter (\<lambda>rc. rc \<noteq> 0) (stake (Suc k) (attempts w)))) (Delay 5000)"
        using IH(6) True by (simp add: w2_def rc_def)
      moreover have "attempts w !! (Suc k - 1) = 0"
        using IH(7) True by (cases k) (simp_all add: w2_def rc_def)
      moreover have "\<forall>e\<in>set ([SerialPrint (PStr ''Attempting MQTT connection...''),
          SerialPrintln (PStr ''connected'')] @ es). is_serial e \<or> e = Delay 5000"
        using IH(5) by simp
      ultimately show ?thesis using IH(2) by (intro conjI exI[of _ "Suc k"]) auto
    next
      case False
      define w2 where "w2 = w1\<lparr>mqtt_up := False, attempts := stl (attempts w), mqtt_state := rc,
        trace := trace w @ failed_attempt rc\<rparr>"
      from 1(2) w1 False have "f w2 = Some w'"
        by (simp add: w2_def rc_def mqtt_connect_def serial_print_def serial_println_def delay_def
              emit_def failed_attempt_def)
      from 1(1)[OF this] obtain k es where
        IH: "same_devices w2 w'" "mqtt_up w'" "attempts w' = sdrop k (attempts w2)"
          "trace w' = trace w2 @ es" "\<forall>e\<in>set es. is_serial e \<or> e = Delay 5000"
          "filter is_wait es =
             replicate (length (filter (\<lambda>rc. rc \<noteq> 0) (stake k (attempts w2)))) (Delay 5000)"
          "\<not> mqtt_up w2 \<longrightarrow> 0 < k" "0 < k \<longrightarrow> attempts w2 !! (k - 1) = 0"
        by blast
      have k: "0 < k" using IH(7) by (simp add: w2_def)
      have "same_devices w w'"
        using IH(1) w1(2) by (simp add: same_devices_def w2_def)
      moreover have "attempts w' = sdrop (Suc k) (attempts w)"
        using IH(3) by (simp add: w2_def)
      moreover have "trace w' = trace w @ (failed_attempt rc @ es)"
        using IH(4) by (simp add: w2_def)
      moreover have "filter is_wait (failed_attempt rc @ es) =
          replicate (length (filter (\<lambda>rc. rc \<noteq> 0) (stake (Suc k) (attempts w)))) (Delay 5000)"
        using IH(6) False by (simp add: w2_def rc_def failed_attempt_def)
      moreover have "attempts w !! (Suc k - 1) = 0"
        using IH(8) k by (cases k) (simp_all add: w2_def)
      moreover have "\<forall>e\<in>set (failed_attempt rc @ es). is_serial e \<or> e = Delay 5000"
        using IH(5) by (auto simp: failed_attempt_def)
      ultimately show ?thesis using IH(2) by (intro conjI exI[of _ "Suc k"]) auto
    qed
  qed
qed

lemma reconnect_never:
  assumes "\<not> mqtt_up w" and "\<forall>n. attempts w !! n \<noteq> 0"
  shows "reconnect w = None"
proof (rule ccontr)
  assume "reconnect w \<noteq> None"
  then obtain w' where "reconnect w = Some w'" by auto
  from reconnect_returns[OF this] assms show False by auto
qed

lemma reconnect_succeeds:
  assumes "\<not> mqtt_up w" and "\<forall>i<n. attempts w !! i \<noteq> 0" and "attempts w !! n = 0"
    and "shd (carrier w)"
  shows "reconnect w =
     Some (w\<lparr>mqtt_up := True, carrier := stl (carrier w),
             attempts := sdrop (Suc n) (attempts w), mqtt_state := 0,
             trace := trace w @ concat (map failed_attempt (stake n (attempts w))) @
               [SerialPrint (PStr ''Attempting MQTT connection...''),
                SerialPrintln (PStr ''connected'')]\<rparr>)"
  using assms
proof (induction n arbitrary: w)
  case 0
  then show ?case
    apply (subst reconnect.simps)
    apply (simp add: mqtt_connected_def mqtt_connect_def serial_print_def serial_println_def emit_def)
    apply (subst reconnect.simps)
    apply (simp add: mqtt_connected_def)
    done
next
  case (Suc n)
  define w2 where "w2 = w\<lparr>mqtt_up := False, attempts := stl (attempts w),
    mqtt_state := shd (attempts w), trace := trace w @ failed_attempt (shd (attempts w))\<rparr>"
  from Suc.prems have first: "shd (attempts w) \<noteq> 0"
    by (metis snth.simps(1) zero_less_Suc)
  have step: "reconnect w = reconnect w2"
    using Suc.prems(1) first
    apply (subst reconnect.simps)
    apply (simp add: w2_def mqtt_connected_def mqtt_connect_def serial_print_def serial_println_def
        delay_def emit_def failed_attempt_def)
    done
  have "\<not> mqtt_up w2" "\<forall>i<n. attempts w2 !! i \<noteq> 0" "attempts w2 !! n = 0" "shd (carrier w2)"
    using Suc.prems by (auto simp: w2_def)
  from Suc.IH[OF this] show ?case
    by (simp add: step w2_def)
qed

lemma loop_connected:
  "mqtt_up w \<Longrightarrow> shd (carrier w) \<Longrightarrow>
   loop w = Some (tick (w\<lparr>mqtt_up := True, carrier := stl (carrier w)\<rparr>))"
  by (simp add: loop_def mqtt_connected_def)

lemma loop_returns:
  assumes "loop w = Some w'"
  shows "\<exists>w1 es. w' = tick w1 \<and> same_devices w w1 \<and> mqtt_up w1 \<and> trace w1 = trace w @ es \<and>
           (\<forall>e\<in>set es. is_serial e \<or> e = Delay 5000) \<and>
           (mqtt_up w \<and> shd (carrier w) \<longrightarrow> es = [])"
proof (cases "mqtt_up w \<and> shd (carrier w)")
  case True
  with assms have "w' = tick (w\<lparr>mqtt_up := True, carrier := stl (carrier w)\<rparr>)"
    by (auto simp: loop_def mqtt_connected_def)
  then show ?thesis
    by (intro exI[of _ "w\<lparr>mqtt_up := True, carrier := stl (carrier w)\<rparr>"] exI[of _ "[]"])
       (simp add: same_devices_def)
next
  case False
  define w0 where "w0 = snd (mqtt_connected w)"
  have w0: "mqtt_connected w = (False, w0)" "same_devices w w0" "trace w0 = trace w"
    using False by (auto simp: w0_def mqtt_connected_def same_devices_def)
  with assms obtain w1 where w1: "reconnect w0 = Some w1" "w' = tick w1"
    by (auto simp: loop_def)
  from reconnect_returns[OF w1(1)] obtain es where
    "same_devices w0 w1" "mqtt_up w1" "trace w1 = trace w0 @ es"
    "\<forall>e\<in>set es. is_serial e \<or> e = Delay 5000"
    by blast
  then show ?thesis using w0 w1(2) False
    by (intro exI[of _ w1] exI[of _ es]) (auto simp: same_devices_def)
qed

lemma loop_never:
  assumes "\<not> mqtt_up w" and "\<forall>n. attempts w !! n \<noteq> 0"
  shows "loop w = None"
  using assms by (simp add: loop_def mqtt_connected_def reconnect_never)

lemma emitted_append: "trace w' = trace w @ es \<Longrightarrow> emitted w w' = es"
  by (simp add: emitted_def)

lemma slot_events_filters:
  "filter is_wait (slot_events i s) = (if shd s = LOW then [Delay 50] else [])"
  "filter is_http (slot_events i s) = []"
  "filter is_publish (slot_events i s) = []"
  by (simp_all add: slot_events_def detect_events_def)

lemma lcd_events_filters:
  "filter is_wait (lcd_events st av) = []"
  "filter is_http (lcd_events st av) = []"
  "filter is_publish (lcd_events st av) = []"
  by (simp_all add: lcd_events_def)


lemma report_events_http:
  "filter is_http (report_events fmt up h t code body st gas) =
     (if isnan h \<or> isnan t then []
      else [HttpBegin (upload_url fmt h t st gas), HttpGet, HttpEnd])"
  by (simp add: report_events_def publish_events_def upload_events_def)

lemma report_events_publish:
  "filter is_publish (report_events fmt up h t code body st gas) =
     (if \<not> isnan h \<and> \<not> isnan t \<and> float_ge t 25 \<and> float_ge h 60 \<and> up
      then [MqttPublish dht_topic (fmt t) True, MqttPublish dht_topic1 (fmt h) True] else [])"
  by (simp add: report_events_def publish_events_def upload_events_def)


lemma tick_http:
  "filter is_http (emitted w (tick w)) =
     (if isnan (shd (dht_humidity w)) \<or> isnan (shd (dht_temperature w)) then []
      else [HttpBegin
              (upload_url (String_float w) (shd (dht_humidity w)) (shd (dht_temperature w))
                 [debounced (digital_in w 32), debounced (digital_in w 35),
                  debounced (digital_in w 27)]
                 (shd (analog_in w mq2Pin))),
            HttpGet, HttpEnd])"
  by (simp add: emitted_def tick_trace slot_events_filters lcd_events_filters report_events_http
        split del: if_split)

lemma tick_publish:
  "filter is_publish (emitted w (tick w)) =
     (if \<not> isnan (shd (dht_humidity w)) \<and> \<not> isnan (shd (dht_temperature w)) \<and>
         float_ge (shd (dht_temperature w)) 25 \<and> float_ge (shd (dht_humidity w)) 60 \<and>
         (mqtt_up w \<and> shd (carrier w) \<and> shd (stl (carrier w)))
      then [MqttPublish dht_topic (String_float w (shd (dht_temperature w))) True,
            MqttPublish dht_topic1 (String_float w (shd (dht_humidity w))) True]
      else [])"
  by (simp add: emitted_def tick_trace slot_events_filters lcd_events_filters report_events_publish
        split del: if_split)

lemma readDHT_emitted:
  "emitted w (readDHT slots st gas w) =
     report_events (String_float w) (mqtt_up w \<and> shd (carrier w)) (shd (dht_humidity w))
       (shd (dht_temperature w)) (shd (http_codes w)) (shd (http_bodies w)) st gas"
  by (simp add: emitted_def readDHT_trace)

lemma loop_emitted:
  assumes "loop w = Some w'"
  shows "\<exists>w1 es. w' = tick w1 \<and> same_devices w w1 \<and> mqtt_up w1 \<and>
           emitted w w' = es @ emitted w1 (tick w1) \<and>
           (\<forall>e\<in>set es. is_serial e \<or> e = Delay 5000) \<and>
           (mqtt_up w \<and> shd (carrier w) \<longrightarrow> es = [])"
proof -
  from loop_returns[OF assms] obtain w1 es where
    *: "w' = tick w1" "same_devices w w1" "mqtt_up w1" "trace w1 = trace w @ es"
       "\<forall>e\<in>set es. is_serial e \<or> e = Delay 5000"
       "mqtt_up w \<and> shd (carrier w) \<longrightarrow> es = []"
    by blast
  have "emitted w w' = es @ emitted w1 (tick w1)"
    using *(1,4) by (simp add: emitted_def tick_trace)
  with * show ?thesis by blast
qed

lemma loop_quiet:
  "loop quiet_world = Some (tick (quiet_world\<lparr>mqtt_up := True, carrier := stl (carrier quiet_world)\<rparr>))"
  by (rule loop_connected) (simp_all add: quiet_world_def)

lemma loop_nan:
  "loop nan_world = Some (tick (nan_world\<lparr>mqtt_up := True, carrier := stl (carrier nan_world)\<rparr>))"
  by (rule loop_connected) (simp_all add: nan_world_def quiet_world_def)

lemma serial_or_wait:
  "is_serial e \<or> e = Delay d \<Longrightarrow> \<not> is_publish e \<and> \<not> is_http e"
  by (cases e) auto

lemma reconnect_events_filters:
  assumes "\<forall>e\<in>set es. is_serial e \<or> e = Delay 5000"
  shows "filter is_publish es = []" and "filter is_http es = []"
  using assms serial_or_wait by (fastforce simp: filter_empty_conv)+

lemma emitted_same_trace: "trace v = trace w \<Longrightarrow> emitted v x = emitted w x"
  by (simp add: emitted_def)

lemma loop_dropped:
  "loop dropped_world =
     Some (tick (dropped_world\<lparr>mqtt_up := True, carrier := stl (carrier dropped_world)\<rparr>))"
  by (rule loop_connected) (simp_all add: dropped_world_def quiet_world_def)

lemma detect_fst: "fst (detectIRStatus pin w) = debounced (digital_in w pin)"
  by (simp add: detect_nf)

lemma loop_scenario:
  "loop scenario_world =
     Some (tick (scenario_world\<lparr>mqtt_up := True, carrier := stl (carrier scenario_world)\<rparr>))"
  by (rule loop_connected) (simp_all add: scenario_world_def quiet_world_def)

lemma filter_get: "filter (\<lambda>e. e = HttpGet) xs = filter (\<lambda>e. e = HttpGet) (filter is_http xs)"
  by (induction xs) auto

lemma report_events_other_code:
  "filter (\<lambda>e. \<not> is_serial e) (report_events fmt up h t c body st gas) =
   filter (\<lambda>e. \<not> is_serial e) (report_events fmt up h t c' body st gas)"
  by (simp add: report_events_def upload_events_def)

lemma readDHT_other_code:
  "(readDHT slots st gas (w\<lparr>http_codes := c ## cs\<rparr>))\<lparr>trace := tr, http_codes := cs\<rparr> =
   (readDHT slots st gas (w\<lparr>http_codes := c' ## cs\<rparr>))\<lparr>trace := tr, http_codes := cs\<rparr>"
  by (cases "isnan (shd (dht_humidity w)) \<or> isnan (shd (dht_temperature w))")
     (simp_all add: readDHT_invalid readDHT_valid)


lemma failed_attempts_waits:
  "filter is_wait (concat (map failed_attempt rcs)) = replicate (length rcs) (Delay 5000)"
  by (induction rcs) (simp_all add: failed_attempt_def)


section \<open>The claims\<close>


text \<open>
  C1. The relay output is HIGH (On) exactly when the gas sample is strictly greater than
  the threshold 1000, and LOW (Off) otherwise, so a sample equal to the threshold gives
  Off. After a whole tick the relay level is this function of the sample read in that
  tick alone, whatever the outputs were before.
\<close>

theorem relay_follows_gas_sample:
  "(pin_out (relay_control v w) relayPin = Some HIGH \<longleftrightarrow> 1000 < v) \<and>
   (pin_out (relay_control v w) relayPin = Some LOW \<longleftrightarrow> v \<le> 1000) \<and>
   pin_out (relay_control 1000 w) relayPin = Some LOW \<and>
   (loop w = Some w' \<longrightarrow>
      pin_out w' relayPin = Some (if 1000 < shd (analog_in w mq2Pin) then HIGH else LOW))"
proof -
  have "pin_out w' relayPin = Some (if 1000 < shd (analog_in w mq2Pin) then HIGH else LOW)"
    if "loop w = Some w'"
  proof -
    from loop_returns[OF that] obtain w1 where "w' = tick w1" "same_devices w w1"
      by blast
    then show ?thesis
      by (simp add: tick_pin_out same_devices_def relayPin_def threshold_def)
  qed
  then show ?thesis
    by (simp add: relay_control_nf threshold_def)
qed

theorem relay_follows_gas_sample_witness:
  "loop scenario_world \<noteq> None \<and> pin_out (the (loop scenario_world)) relayPin = Some HIGH"
proof -
  have "loop scenario_world =
      Some (tick (scenario_world\<lparr>mqtt_up := True, carrier := stl (carrier scenario_world)\<rparr>))"
    by (rule loop_connected) (simp_all add: scenario_world_def quiet_world_def)
  with relay_follows_gas_sample[where w = scenario_world and w' = "the (loop scenario_world)"]
  show ?thesis
    by (simp add: scenario_world_def quiet_world_def)
qed


text \<open>
  C3. For every sequence of reads on a slot pin, \<open>detectIRStatus\<close> answers Occupied
  exactly when the first read is LOW (the active level) and the read taken after the
  50 ms wait is LOW too; otherwise it answers Empty. When the first read is not LOW
  no second read is taken and nothing is waited for; when it is LOW, the trace shows the
  first read, the wait of 50, then the second read.
\<close>

theorem detectIRStatus_debounce:
  "fst (detectIRStatus pin w) =
     (if shd (digital_in w pin) = LOW \<and> shd (stl (digital_in w pin)) = LOW
      then ''Occupied'' else ''Empty'') \<and>
   emitted w (snd (detectIRStatus pin w)) =
     (if shd (digital_in w pin) = LOW
      then [DigitalRead pin LOW, Delay 50, DigitalRead pin (shd (stl (digital_in w pin)))]
      else [DigitalRead pin (shd (digital_in w pin))])"
  by (simp add: detect_nf debounced_def detect_events_def emitted_def)

text \<open>
  C4. When the humidity or the temperature reading is not a number, \<open>readDHT\<close> emits
  the diagnostic line and a wait and nothing else: a returning tick then contains no
  telemetry publish and no HTTP call. When both readings are numbers, the HTTP GET of
  the status upload is issued, in \<open>readDHT\<close> and so in every returning tick.
\<close>

theorem invalid_sample_aborts_report:
  "(isnan (shd (dht_humidity w)) \<or> isnan (shd (dht_temperature w)) \<longrightarrow>
      emitted w (readDHT slots st gas w) =
        [SerialPrintln (PStr ''Failed to read from DHT sensor''), Delay 2000]) \<and>
   (\<not> isnan (shd (dht_humidity w)) \<and> \<not> isnan (shd (dht_temperature w)) \<longrightarrow>
      HttpGet \<in> set (emitted w (readDHT slots st gas w))) \<and>
   (loop w = Some w' \<longrightarrow>
      (if isnan (shd (dht_humidity w)) \<or> isnan (shd (dht_temperature w))
       then filter is_publish (emitted w w') = [] \<and> filter is_http (emitted w w') = []
       else HttpGet \<in> set (emitted w w')))"
proof (intro conjI impI)
  assume "isnan (shd (dht_humidity w)) \<or> isnan (shd (dht_temperature w))"
  then show "emitted w (readDHT slots st gas w) =
      [SerialPrintln (PStr ''Failed to read from DHT sensor''), Delay 2000]"
    by (simp add: readDHT_emitted report_events_def)
next
  assume "\<not> isnan (shd (dht_humidity w)) \<and> \<not> isnan (shd (dht_temperature w))"
  then have "filter is_http (emitted w (readDHT slots st gas w)) \<noteq> []"
    by (simp add: readDHT_emitted report_events_http)
  then have "HttpGet \<in> set (filter is_http (emitted w (readDHT slots st gas w)))"
    using \<open>\<not> isnan (shd (dht_humidity w)) \<and> \<not> isnan (shd (dht_temperature w))\<close>
    by (simp add: readDHT_emitted report_events_http)
  then show "HttpGet \<in> set (emitted w (readDHT slots st gas w))"
    by simp
next
  assume "loop w = Some w'"
  from loop_emitted[OF this] obtain w1 es where
    *: "w' = tick w1" "same_devices w w1" "emitted w w' = es @ emitted w1 (tick w1)"
       "\<forall>e\<in>set es. is_serial e \<or> e = Delay 5000"
    by blast
  have es: "filter is_publish es = []" "filter is_http es = []"
    using *(4) by (rule reconnect_events_filters)+
  have dev: "dht_humidity w1 = dht_humidity w" "dht_temperature w1 = dht_temperature w"
    using *(2) by (simp_all add: same_devices_def)
  show "if isnan (shd (dht_humidity w)) \<or> isnan (shd (dht_temperature w))
       then filter is_publish (emitted w w') = [] \<and> filter is_http (emitted w w') = []
       else HttpGet \<in> set (emitted w w')"
  proof (cases "isnan (shd (dht_humidity w)) \<or> isnan (shd (dht_temperature w))")
    case True
    then show ?thesis
      using es dev by (auto simp: *(3) tick_publish tick_http)
  next
    case False
    then have "HttpGet \<in> set (filter is_http (emitted w1 (tick w1)))"
      using dev by (simp add: tick_http)
    then have "HttpGet \<in> set (emitted w1 (tick w1))"
      by simp
    then show ?thesis using False by (simp add: *(3))
  qed
qed

theorem invalid_sample_aborts_report_witness:
  "emitted nan_world (readDHT 0 [''Empty'', ''Empty'', ''Empty''] 0 nan_world) =
     [SerialPrintln (PStr ''Failed to read from DHT sensor''), Delay 2000] \<and>
   loop nan_world \<noteq> None \<and>
   filter is_publish (emitted nan_world (the (loop nan_world))) = [] \<and>
   filter is_http (emitted nan_world (the (loop nan_world))) = [] \<and>
   HttpGet \<in> set (emitted quiet_world (readDHT 0 [''Empty'', ''Empty'', ''Empty''] 0 quiet_world)) \<and>
   loop quiet_world \<noteq> None \<and>
   HttpGet \<in> set (emitted quiet_world (the (loop quiet_world)))"
proof -
  have n: "isnan (shd (dht_temperature nan_world))"
    and q: "\<not> isnan (shd (dht_humidity quiet_world))" "\<not> isnan (shd (dht_temperature quiet_world))"
    by (simp_all add: nan_world_def quiet_world_def)
  from invalid_sample_aborts_report
         [where w = nan_world and w' = "the (loop nan_world)" and slots = 0 and gas = 0
            and st = "[''Empty'', ''Empty'', ''Empty'']"]
       invalid_sample_aborts_report
         [where w = quiet_world and w' = "the (loop quiet_world)" and slots = 0 and gas = 0
            and st = "[''Empty'', ''Empty'', ''Empty'']"]
       n q loop_nan loop_quiet
  show ?thesis by simp
qed

text \<open>
  C5. With a valid sample, the two telemetry publishes (temperature, then humidity,
  retained) happen exactly when temperature >= 25.0 and humidity >= 60.0 and the
  telemetry client answers connected at that point; with the thresholds met and the client
  not connected, the line "MQTT not connected" is printed instead. In a tick the client is
  polled once before (\<open>mqttClient.loop()\<close>), so the session has to survive both polls.
\<close>

theorem publish_needs_thresholds_and_session:
  "\<not> isnan (shd (dht_humidity w)) \<and> \<not> isnan (shd (dht_temperature w)) \<longrightarrow>
     filter is_publish (emitted w (readDHT slots st gas w)) =
       (if float_ge (shd (dht_temperature w)) 25 \<and> float_ge (shd (dht_humidity w)) 60 \<and>
           mqtt_up w \<and> shd (carrier w)
        then [MqttPublish dht_topic (String_float w (shd (dht_temperature w))) True,
              MqttPublish dht_topic1 (String_float w (shd (dht_humidity w))) True]
        else []) \<and>
     (float_ge (shd (dht_temperature w)) 25 \<and> float_ge (shd (dht_humidity w)) 60 \<and>
      \<not> (mqtt_up w \<and> shd (carrier w)) \<longrightarrow>
        SerialPrintln (PStr ''MQTT not connected'') \<in> set (emitted w (readDHT slots st gas w))) \<and>
     filter is_publish (emitted w (tick w)) =
       (if float_ge (shd (dht_temperature w)) 25 \<and> float_ge (shd (dht_humidity w)) 60 \<and>
           mqtt_up w \<and> shd (carrier w) \<and> shd (stl (carrier w))
        then [MqttPublish dht_topic (String_float w (shd (dht_temperature w))) True,
              MqttPublish dht_topic1 (String_float w (shd (dht_humidity w))) True]
        else [])"
  by (simp add: readDHT_emitted report_events_publish tick_publish)
     (auto simp: report_events_def publish_events_def upload_events_def)

text \<open>
  The boundary pairs, with the session up: (25.0, 60.0) publishes; (24.9, 60.0) and
  (25.0, 59.9), taken as the nearest single-precision values, do not. With the session
  down nothing is published at (25.0, 60.0).
\<close>

theorem publish_needs_thresholds_and_session_witness:
  "filter is_publish (emitted quiet_world (tick quiet_world)) =
     [MqttPublish ''DHT11_topic_manros'' ''25.00'' True,
      MqttPublish ''DHT11_topic1_manros'' ''60.00'' True] \<and>
   filter is_publish
     (emitted (quiet_world\<lparr>dht_temperature := sconst (Num (13054771 / 524288))\<rparr>)
        (tick (quiet_world\<lparr>dht_temperature := sconst (Num (13054771 / 524288))\<rparr>))) = [] \<and>
   filter is_publish
     (emitted (quiet_world\<lparr>dht_humidity := sconst (Num (15702426 / 262144))\<rparr>)
        (tick (quiet_world\<lparr>dht_humidity := sconst (Num (15702426 / 262144))\<rparr>))) = [] \<and>
   filter is_publish (emitted (quiet_world\<lparr>mqtt_up := False\<rparr>)
     (readDHT 0 [] 0 (quiet_world\<lparr>mqtt_up := False\<rparr>))) = [] \<and>
   SerialPrintln (PStr ''MQTT not connected'') \<in>
     set (emitted (quiet_world\<lparr>mqtt_up := False\<rparr>)
            (readDHT 0 [] 0 (quiet_world\<lparr>mqtt_up := False\<rparr>)))"
proof -
  have a: "filter is_publish (emitted quiet_world (tick quiet_world)) =
     [MqttPublish ''DHT11_topic_manros'' ''25.00'' True,
      MqttPublish ''DHT11_topic1_manros'' ''60.00'' True]"
    using publish_needs_thresholds_and_session[where w = quiet_world]
    by (simp add: quiet_world_def example_fmt_def dht_topic_def dht_topic1_def)
  have b: "filter is_publish
     (emitted (quiet_world\<lparr>dht_temperature := sconst (Num (13054771 / 524288))\<rparr>)
        (tick (quiet_world\<lparr>dht_temperature := sconst (Num (13054771 / 524288))\<rparr>))) = []"
    using publish_needs_thresholds_and_session
      [where w = "quiet_world\<lparr>dht_temperature := sconst (Num (13054771 / 524288))\<rparr>"]
    by (simp add: quiet_world_def)
  have c: "filter is_publish
     (emitted (quiet_world\<lparr>dht_humidity := sconst (Num (15702426 / 262144))\<rparr>)
        (tick (quiet_world\<lparr>dht_humidity := sconst (Num (15702426 / 262144))\<rparr>))) = []"
    using publish_needs_thresholds_and_session
      [where w = "quiet_world\<lparr>dht_humidity := sconst (Num (15702426 / 262144))\<rparr>"]
    by (simp add: quiet_world_def)
  have d: "filter is_publish (emitted (quiet_world\<lparr>mqtt_up := False\<rparr>)
       (readDHT 0 [] 0 (quiet_world\<lparr>mqtt_up := False\<rparr>))) = [] \<and>
     SerialPrintln (PStr ''MQTT not connected'') \<in>
       set (emitted (quiet_world\<lparr>mqtt_up := False\<rparr>)
              (readDHT 0 [] 0 (quiet_world\<lparr>mqtt_up := False\<rparr>)))"
    using publish_needs_thresholds_and_session
      [where w = "quiet_world\<lparr>mqtt_up := False\<rparr>" and slots = 0 and st = "[]" and gas = 0]
    by (simp add: quiet_world_def)
  from a b c d show ?thesis by blast
qed

text \<open>
  The thresholds alone do not decide the publish: in \<open>dropped_world\<close> the sample is
  (25.0, 60.0), the tick returns, and nothing is published, because the session is found
  dead when \<open>readDHT\<close> polls it.
\<close>

theorem publish_iff_thresholds_counterexample:
  "loop dropped_world \<noteq> None \<and>
   \<not> isnan (shd (dht_humidity dropped_world)) \<and>
   \<not> isnan (shd (dht_temperature dropped_world)) \<and>
   float_ge (shd (dht_temperature dropped_world)) 25 \<and>
   float_ge (shd (dht_humidity dropped_world)) 60 \<and>
   filter is_publish (emitted dropped_world (the (loop dropped_world))) = []"
proof -
  have "emitted dropped_world (the (loop dropped_world)) =
        emitted (dropped_world\<lparr>mqtt_up := True, carrier := stl (carrier dropped_world)\<rparr>)
          (tick (dropped_world\<lparr>mqtt_up := True, carrier := stl (carrier dropped_world)\<rparr>))"
    unfolding loop_dropped option.sel by (rule emitted_same_trace) simp
  then have "filter is_publish (emitted dropped_world (the (loop dropped_world))) = []"
    by (simp add: tick_publish dropped_world_def quiet_world_def)
  then show ?thesis
    by (simp add: loop_dropped) (simp add: dropped_world_def quiet_world_def)
qed

text \<open>
  C6. With a valid sample, \<open>readDHT\<close> makes exactly one upload: one \<open>begin\<close> on the
  URL built from the temperature, the humidity, the gas value and the three slot strings,
  one GET, one \<open>end\<close>, whether or not the publish thresholds are met. In a returning
  tick these are the only HTTP calls, and the URL carries the gas sample and the three
  slot states read in that tick.
\<close>

theorem one_status_upload_per_valid_tick:
  "\<not> isnan (shd (dht_humidity w)) \<and> \<not> isnan (shd (dht_temperature w)) \<longrightarrow>
     filter is_http (emitted w (readDHT slots sensorStatus gasValue w)) =
       [HttpBegin
          (''http://'' @ host @ ''/projectfinal/kirimdata.php?temp=''
             @ String_float w (shd (dht_temperature w))
             @ ''&hum='' @ String_float w (shd (dht_humidity w))
             @ ''&gas='' @ String_int gasValue
             @ ''&ir1='' @ sensorStatus ! 0
             @ ''&ir2='' @ sensorStatus ! 1
             @ ''&ir3='' @ sensorStatus ! 2),
        HttpGet, HttpEnd] \<and>
     (loop w = Some w' \<longrightarrow>
        filter is_http (emitted w w') =
          [HttpBegin
             (''http://'' @ host @ ''/projectfinal/kirimdata.php?temp=''
                @ String_float w (shd (dht_temperature w))
                @ ''&hum='' @ String_float w (shd (dht_humidity w))
                @ ''&gas='' @ String_int (shd (analog_in w mq2Pin))
                @ ''&ir1='' @ fst (detectIRStatus 32 w)
                @ ''&ir2='' @ fst (detectIRStatus 35 w)
                @ ''&ir3='' @ fst (detectIRStatus 27 w)),
           HttpGet, HttpEnd])"
proof (intro impI conjI)
  assume valid: "\<not> isnan (shd (dht_humidity w)) \<and> \<not> isnan (shd (dht_temperature w))"
  then show "filter is_http (emitted w (readDHT slots sensorStatus gasValue w)) =
       [HttpBegin
          (''http://'' @ host @ ''/projectfinal/kirimdata.php?temp=''
             @ String_float w (shd (dht_temperature w))
             @ ''&hum='' @ String_float w (shd (dht_humidity w))
             @ ''&gas='' @ String_int gasValue
             @ ''&ir1='' @ sensorStatus ! 0
             @ ''&ir2='' @ sensorStatus ! 1
             @ ''&ir3='' @ sensorStatus ! 2),
        HttpGet, HttpEnd]"
    by (simp add: readDHT_emitted report_events_http upload_url_def)
  assume "loop w = Some w'"
  from loop_emitted[OF this] obtain w1 es where
    *: "w' = tick w1" "same_devices w w1" "emitted w w' = es @ emitted w1 (tick w1)"
       "\<forall>e\<in>set es. is_serial e \<or> e = Delay 5000"
    by blast
  have es: "filter is_http es = []"
    using *(4) by (rule reconnect_events_filters)
  have dev: "dht_humidity w1 = dht_humidity w" "dht_temperature w1 = dht_temperature w"
    "analog_in w1 = analog_in w" "digital_in w1 = digital_in w" "String_float w1 = String_float w"
    using *(2) by (simp_all add: same_devices_def)
  show "filter is_http (emitted w w') =
          [HttpBegin
             (''http://'' @ host @ ''/projectfinal/kirimdata.php?temp=''
                @ String_float w (shd (dht_temperature w))
                @ ''&hum='' @ String_float w (shd (dht_humidity w))
                @ ''&gas='' @ String_int (shd (analog_in w mq2Pin))
                @ ''&ir1='' @ fst (detectIRStatus 32 w)
                @ ''&ir2='' @ fst (detectIRStatus 35 w)
                @ ''&ir3='' @ fst (detectIRStatus 27 w)),
           HttpGet, HttpEnd]"
    using valid es dev by (simp add: *(3) tick_http upload_url_def detect_fst)
qed

text \<open>
  The concrete scenario: slots Occupied, Empty, Occupied and gas 1200. The upload carries
  \<open>gas=1200\<close> and \<open>ir1=Occupied\<close>, \<open>ir2=Empty\<close>, \<open>ir3=Occupied\<close>; the indicators are
  off, lit, off; one slot is shown available.
\<close>

theorem one_status_upload_per_valid_tick_witness:
  "loop scenario_world \<noteq> None \<and>
   filter is_http (emitted scenario_world (the (loop scenario_world))) =
     [HttpBegin
        (''http://YOUR_SERVER_IP/projectfinal/kirimdata.php?temp=25.00&hum=60.00'' @
         ''&gas=1200&ir1=Occupied&ir2=Empty&ir3=Occupied''),
      HttpGet, HttpEnd] \<and>
   pin_out (the (loop scenario_world)) 18 = Some LOW \<and>
   pin_out (the (loop scenario_world)) 19 = Some HIGH \<and>
   pin_out (the (loop scenario_world)) 4 = Some LOW \<and>
   LcdPrint (PInt 1) \<in> set (emitted scenario_world (the (loop scenario_world)))"
proof -
  let ?w1 = "scenario_world\<lparr>mqtt_up := True, carrier := stl (carrier scenario_world)\<rparr>"
  have valid: "\<not> isnan (shd (dht_humidity scenario_world)) \<and>
      \<not> isnan (shd (dht_temperature scenario_world))"
    by (simp add: scenario_world_def quiet_world_def)
  have gas: "String_int (shd (analog_in scenario_world mq2Pin)) = ''1200''"
    by (simp add: scenario_world_def quiet_world_def String_int_def dec_digits.simps)
  have slots: "fst (detectIRStatus 32 scenario_world) = ''Occupied''"
    "fst (detectIRStatus 35 scenario_world) = ''Empty''"
    "fst (detectIRStatus 27 scenario_world) = ''Occupied''"
    by (simp_all add: detect_fst debounced_def scenario_world_def quiet_world_def)
  have fmt: "String_float scenario_world (shd (dht_temperature scenario_world)) = ''25.00''"
    "String_float scenario_world (shd (dht_humidity scenario_world)) = ''60.00''"
    by (simp_all add: scenario_world_def quiet_world_def example_fmt_def)
  from one_status_upload_per_valid_tick
         [where w = scenario_world and w' = "the (loop scenario_world)"] valid
  have http: "filter is_http (emitted scenario_world (the (loop scenario_world))) =
     [HttpBegin
        (''http://YOUR_SERVER_IP/projectfinal/kirimdata.php?temp=25.00&hum=60.00'' @
         ''&gas=1200&ir1=Occupied&ir2=Empty&ir3=Occupied''),
      HttpGet, HttpEnd]"
    by (simp add: loop_scenario gas slots fmt host_def)
  have deb: "debounced (digital_in scenario_world 32) = ''Occupied''"
    "debounced (digital_in scenario_world 35) = ''Empty''"
    "debounced (digital_in scenario_world 27) = ''Occupied''"
    using slots by (simp_all add: detect_fst)
  have pins: "pin_out (tick ?w1) 18 = Some LOW \<and> pin_out (tick ?w1) 19 = Some HIGH \<and>
      pin_out (tick ?w1) 4 = Some LOW"
    using deb by (simp add: tick_pin_out led_level_def)
  have "emitted scenario_world (tick ?w1) = emitted ?w1 (tick ?w1)"
    by (rule emitted_same_trace) simp
  moreover have "LcdPrint (PInt 1) \<in> set (emitted ?w1 (tick ?w1))"
    using deb by (simp add: emitted_def tick_trace lcd_events_def)
  ultimately show ?thesis
    using http pins by (simp add: loop_scenario)
qed

text \<open>
  C7. The status code the upload returns only decides whether two diagnostic lines are
  printed. \<open>readDHT\<close> writes no output pin and issues at most one GET; run with any
  code \<open>c\<close> instead of 200 it leaves the same world apart from the serial lines in the
  trace. So after a tick the relay and the three indicators hold what the tick set from
  its gas sample and slot reads, whatever the code was, and the tick has at most one GET.
\<close>

theorem upload_failure_is_diagnostic_only:
  "pin_out (readDHT slots st gas w) = pin_out w \<and>
   length (filter (\<lambda>e. e = HttpGet) (emitted w (readDHT slots st gas w))) \<le> 1 \<and>
   (readDHT slots st gas (w\<lparr>http_codes := c ## cs\<rparr>))\<lparr>trace := tr, http_codes := cs\<rparr> =
     (readDHT slots st gas (w\<lparr>http_codes := 200 ## cs\<rparr>))\<lparr>trace := tr, http_codes := cs\<rparr> \<and>
   filter (\<lambda>e. \<not> is_serial e) (trace (readDHT slots st gas (w\<lparr>http_codes := c ## cs\<rparr>))) =
     filter (\<lambda>e. \<not> is_serial e) (trace (readDHT slots st gas (w\<lparr>http_codes := 200 ## cs\<rparr>))) \<and>
   pin_out (tick (w\<lparr>http_codes := c ## cs\<rparr>)) = pin_out (tick (w\<lparr>http_codes := 200 ## cs\<rparr>)) \<and>
   pin_out (tick (w\<lparr>http_codes := c ## cs\<rparr>)) relayPin =
     Some (if 1000 < shd (analog_in w mq2Pin) then HIGH else LOW) \<and>
   map (pin_out (tick (w\<lparr>http_codes := c ## cs\<rparr>))) ledPins =
     map (\<lambda>pin. Some (if fst (detectIRStatus pin w) = ''Occupied'' then LOW else HIGH))
       irSensorPins \<and>
   filter (\<lambda>e. \<not> is_serial e) (trace (tick (w\<lparr>http_codes := c ## cs\<rparr>))) =
     filter (\<lambda>e. \<not> is_serial e) (trace (tick (w\<lparr>http_codes := 200 ## cs\<rparr>))) \<and>
   length (filter (\<lambda>e. e = HttpGet) (emitted w (tick w))) \<le> 1"
proof -
  have "length (filter (\<lambda>e. e = HttpGet) (emitted w (readDHT slots st gas w))) \<le> 1"
    by (subst filter_get) (simp add: readDHT_emitted report_events_http)
  moreover have "length (filter (\<lambda>e. e = HttpGet) (emitted w (tick w))) \<le> 1"
    by (subst filter_get) (simp add: tick_http)
  moreover have "filter (\<lambda>e. \<not> is_serial e) (trace (readDHT slots st gas (w\<lparr>http_codes := c ## cs\<rparr>))) =
     filter (\<lambda>e. \<not> is_serial e) (trace (readDHT slots st gas (w\<lparr>http_codes := 200 ## cs\<rparr>)))"
    by (simp add: readDHT_trace report_events_other_code[of _ _ _ _ c _ _ _ 200])
  moreover have "filter (\<lambda>e. \<not> is_serial e) (trace (tick (w\<lparr>http_codes := c ## cs\<rparr>))) =
     filter (\<lambda>e. \<not> is_serial e) (trace (tick (w\<lparr>http_codes := 200 ## cs\<rparr>)))"
    by (simp add: tick_trace report_events_other_code[of _ _ _ _ c _ _ _ 200] split del: if_split)
  moreover have "pin_out (tick (w\<lparr>http_codes := c ## cs\<rparr>)) relayPin =
     Some (if 1000 < shd (analog_in w mq2Pin) then HIGH else LOW)"
    by (simp add: tick_pin_out relayPin_def threshold_def)
  moreover have "map (pin_out (tick (w\<lparr>http_codes := c ## cs\<rparr>))) ledPins =
     map (\<lambda>pin. Some (if fst (detectIRStatus pin w) = ''Occupied'' then LOW else HIGH))
       irSensorPins"
    by (simp add: tick_pin_out ledPins_def irSensorPins_def detect_fst led_level_def)
  ultimately show ?thesis
    using readDHT_other_code[where slots = slots and st = st and gas = gas and w = w and c = c
        and cs = cs and tr = tr and c' = 200]
    by (simp add: readDHT_pin_out tick_pin_out)
qed




text \<open>
  C9. When \<open>connected()\<close> answers false at the start of a tick, the session is down and
  the tick is whatever \<open>reconnect\<close> returns, followed by the rest of the tick. Entered
  with the session down, \<open>reconnect\<close> returns only with the session up and after an
  attempt that succeeded (the last one it made), having waited 5000 once for every failed
  attempt. If the first \<open>n\<close> attempts fail, the next succeeds and the carrier is alive,
  it does return, after \<open>n\<close> waits, and the tick runs. If every attempt fails, it never
  returns and neither does \<open>loop\<close>.
\<close>

theorem reconnect_blocks_until_connected:
  "(\<not> fst (mqtt_connected w) \<longrightarrow>
      \<not> mqtt_up (snd (mqtt_connected w)) \<and>
      loop w = map_option tick (reconnect (snd (mqtt_connected w)))) \<and>
   (\<not> mqtt_up w \<longrightarrow>
     (reconnect w = Some w' \<longrightarrow>
        mqtt_up w' \<and>
        (\<exists>k. 0 < k \<and> attempts w !! (k - 1) = 0 \<and> attempts w' = sdrop k (attempts w) \<and>
           filter is_wait (emitted w w') =
             replicate (length (filter (\<lambda>rc. rc \<noteq> 0) (stake k (attempts w)))) (Delay 5000))) \<and>
     ((\<forall>i<n. attempts w !! i \<noteq> 0) \<and> attempts w !! n = 0 \<and> shd (carrier w) \<longrightarrow>
        (\<exists>w1. reconnect w = Some w1 \<and> loop w = Some (tick w1) \<and>
           filter is_wait (emitted w w1) = replicate n (Delay 5000))) \<and>
     ((\<forall>n. attempts w !! n \<noteq> 0) \<longrightarrow> reconnect w = None \<and> loop w = None))"
proof (intro impI conjI)
  assume "\<not> fst (mqtt_connected w)"
  then show "\<not> mqtt_up (snd (mqtt_connected w))"
    and "loop w = map_option tick (reconnect (snd (mqtt_connected w)))"
    by (auto simp: loop_def mqtt_connected_def split: if_splits)
next
  assume down: "\<not> mqtt_up w"
  {
    assume "reconnect w = Some w'"
    from reconnect_returns[OF this] down obtain k es where
      *: "mqtt_up w'" "attempts w' = sdrop k (attempts w)" "trace w' = trace w @ es"
         "filter is_wait es =
            replicate (length (filter (\<lambda>rc. rc \<noteq> 0) (stake k (attempts w)))) (Delay 5000)"
         "0 < k" "attempts w !! (k - 1) = 0"
      by blast
    from *(1) show "mqtt_up w'" .
    from *(3) have "emitted w w' = es" by (rule emitted_append)
    with * show "\<exists>k. 0 < k \<and> attempts w !! (k - 1) = 0 \<and> attempts w' = sdrop k (attempts w) \<and>
           filter is_wait (emitted w w') =
             replicate (length (filter (\<lambda>rc. rc \<noteq> 0) (stake k (attempts w)))) (Delay 5000)"
      by blast
  }
  {
    assume "(\<forall>i<n. attempts w !! i \<noteq> 0) \<and> attempts w !! n = 0 \<and> shd (carrier w)"
    then have r: "reconnect w =
       Some (w\<lparr>mqtt_up := True, carrier := stl (carrier w),
               attempts := sdrop (Suc n) (attempts w), mqtt_state := 0,
               trace := trace w @ concat (map failed_attempt (stake n (attempts w))) @
                 [SerialPrint (PStr ''Attempting MQTT connection...''),
                  SerialPrintln (PStr ''connected'')]\<rparr>)"
      using down by (intro reconnect_succeeds) auto
    show "\<exists>w1. reconnect w = Some w1 \<and> loop w = Some (tick w1) \<and>
           filter is_wait (emitted w w1) = replicate n (Delay 5000)"
      using down
      by (simp add: r loop_def mqtt_connected_def emitted_def failed_attempts_waits)
  }
  {
    assume "\<forall>n. attempts w !! n \<noteq> 0"
    with down show "reconnect w = None" "loop w = None"
      by (simp_all add: reconnect_never loop_never)
  }
qed

text \<open>
  In \<open>offline_world\<close> neither \<open>reconnect\<close> nor \<open>loop\<close> returns; in \<open>retry_world\<close>
  \<open>reconnect\<close> returns after two waits of 5000 and the tick runs.
\<close>

theorem reconnect_blocks_until_connected_witness:
  "\<not> fst (mqtt_connected offline_world) \<and>
   reconnect offline_world = None \<and> loop offline_world = None \<and>
   (\<exists>w1. reconnect retry_world = Some w1 \<and> loop retry_world = Some (tick w1) \<and>
      mqtt_up w1 \<and> filter is_wait (emitted retry_world w1) = [Delay 5000, Delay 5000])"
proof -
  have off: "\<not> mqtt_up offline_world" "\<forall>n. attempts offline_world !! n \<noteq> 0"
    by (simp_all add: offline_world_def quiet_world_def)
  have re: "\<not> mqtt_up retry_world"
    "(\<forall>i<2. attempts retry_world !! i \<noteq> 0) \<and> attempts retry_world !! 2 = 0 \<and>
       shd (carrier retry_world)"
    by (auto simp: retry_world_def quiet_world_def less_Suc_eq numeral_2_eq_2)
  from reconnect_blocks_until_connected[where w = retry_world and n = 2] re
  obtain w1 where w1: "reconnect retry_world = Some w1" "loop retry_world = Some (tick w1)"
    "filter is_wait (emitted retry_world w1) = replicate 2 (Delay 5000)"
    by blast
  from reconnect_blocks_until_connected[where w = retry_world and w' = w1] re(1) w1(1)
  have "mqtt_up w1"
    by blast
  with w1 reconnect_blocks_until_connected[where w = offline_world] off
  show ?thesis
    by (auto simp: numeral_2_eq_2 mqtt_connected_def)
qed

text \<open>
  C10. The first argument of \<open>readDHT\<close> (the occupied count, \<open>3 - availableSlots\<close>
  at the call in \<open>loop\<close>) is never used: two calls that differ only in it leave the
  same world, so the same publishes, the same upload request and the same diagnostics.
\<close>

theorem report_ignores_occupied_count:
  "readDHT slots sensorStatus gasValue w = readDHT slots' sensorStatus gasValue w"
  by (simp add: readDHT_def)

end
